theory Spec2Isabelle
  imports Main
begin

section \<open>Python values, exceptions and the collaborators of \<open>main.py\<close>\<close>

text \<open>
  The program under study is the single module \<open>main.py\<close>: the class \<open>MCPClient\<close> and
  the coroutine \<open>main\<close>. Everything the module does goes through collaborators that are
  not part of it (the MCP session over a subprocess, the chat-completion API, the JSON
  parser, the file system, standard input and output, the \<open>AsyncExitStack\<close> of the
  standard library). The embedding keeps the module's own control flow and data flow
  and takes the collaborators as an environment record of functions. Every call to a
  collaborator is appended, with its outcome, to a trace of events; a stateful
  collaborator is a function of the trace so far, so that its answer may depend on
  everything that happened before.

  Python strings are byte strings of their UTF-8 encoding; the non-ASCII literals of
  the source are written out byte by byte.
\<close>

subsection \<open>Values decoded from JSON\<close>

datatype pyfloat = Finite int int | Infinite bool | NaN

datatype json =
    JNull
  | JBool bool
  | JInt int
  | JFloat pyfloat
  | JStr string
  | JArr "json list"
  | JObj "(string \<times> json) list"

text \<open>
  A Python \<open>dict\<close> is an association list in insertion order (\<open>JObj\<close>); the lists
  that the JSON decoder builds have distinct keys. \<open>truthy\<close> is Python's truth value
  testing, \<open>type_name\<close> is \<open>type(v).__name__\<close>.
\<close>

fun truthy :: "json \<Rightarrow> bool" where
  "truthy JNull = False"
| "truthy (JBool b) = b"
| "truthy (JInt i) = (i \<noteq> 0)"
| "truthy (JFloat (Finite m e)) = (m \<noteq> 0)"
| "truthy (JFloat (Infinite s)) = True"
| "truthy (JFloat NaN) = True"
| "truthy (JStr s) = (s \<noteq> [])"
| "truthy (JArr xs) = (xs \<noteq> [])"
| "truthy (JObj kvs) = (kvs \<noteq> [])"

fun type_name :: "json \<Rightarrow> string" where
  "type_name JNull = ''NoneType''"
| "type_name (JBool b) = ''bool''"
| "type_name (JInt i) = ''int''"
| "type_name (JFloat f) = ''float''"
| "type_name (JStr s) = ''str''"
| "type_name (JArr xs) = ''list''"
| "type_name (JObj kvs) = ''dict''"

subsection \<open>Exceptions\<close>

datatype exc_class =
    ValueError
  | FileNotFoundError
  | AttributeError
  | TypeError
  | IndexError
  | KeyError
  | StopIteration
  | JSONDecodeError
  | EOFError
  | OtherException string
  | KeyboardInterrupt
  | OtherBaseException string

text \<open>An exception is its class and \<open>str(e)\<close>.\<close>

datatype error = Exc exc_class string

fun exc_class_of :: "error \<Rightarrow> exc_class" where
  "exc_class_of (Exc c m) = c"

fun str_of :: "error \<Rightarrow> string" where
  "str_of (Exc c m) = m"

text \<open>
  \<open>except Exception\<close> catches every class but those derived from \<open>BaseException\<close>
  only (\<open>KeyboardInterrupt\<close>, \<open>asyncio.CancelledError\<close>, \<open>SystemExit\<close>).
\<close>

fun is_Exception :: "error \<Rightarrow> bool" where
  "is_Exception (Exc KeyboardInterrupt m) = False"
| "is_Exception (Exc (OtherBaseException n) m) = False"
| "is_Exception (Exc c m) = True"

definition no_attribute :: "string \<Rightarrow> string \<Rightarrow> error" where
  "no_attribute ty attr =
     Exc AttributeError
       ([CHR 0x27] @ ty @ [CHR 0x27] @ '' object has no attribute '' @ [CHR 0x27] @ attr @ [CHR 0x27])"

definition index_out_of_range :: error where
  "index_out_of_range = Exc IndexError ''list index out of range''"

definition not_subscriptable :: "string \<Rightarrow> error" where
  "not_subscriptable ty =
     Exc TypeError ([CHR 0x27] @ ty @ [CHR 0x27] @ '' object is not subscriptable'')"

text \<open>\<open>v.get(k, dflt)\<close>, \<open>v[k]\<close> and \<open>v.items()\<close> on a decoded JSON value.\<close>

definition py_get :: "json \<Rightarrow> string \<Rightarrow> json \<Rightarrow> error + json" where
  "py_get v k dflt =
     (case v of
        JObj d \<Rightarrow> (case map_of d k of None \<Rightarrow> Inr dflt | Some x \<Rightarrow> Inr x)
      | _ \<Rightarrow> Inl (no_attribute (type_name v) ''get''))"

definition py_getitem :: "json \<Rightarrow> string \<Rightarrow> error + json" where
  "py_getitem v k =
     (case v of
        JObj d \<Rightarrow>
          (case map_of d k of
             None \<Rightarrow> Inl (Exc KeyError ([CHR 0x27] @ k @ [CHR 0x27]))
           | Some x \<Rightarrow> Inr x)
      | JArr xs \<Rightarrow> Inl (Exc TypeError ''list indices must be integers or slices, not str'')
      | JStr s \<Rightarrow>
          Inl (Exc TypeError (''string indices must be integers, not '' @ [CHR 0x27] @ ''str'' @ [CHR 0x27]))
      | _ \<Rightarrow> Inl (not_subscriptable (type_name v)))"

definition py_items :: "json \<Rightarrow> error + (string \<times> json) list" where
  "py_items v =
     (case v of
        JObj d \<Rightarrow> Inr d
      | _ \<Rightarrow> Inl (no_attribute (type_name v) ''items''))"

subsection \<open>The MCP session and the chat-completion API\<close>

record tool =
  tool_name :: string
  tool_description :: "string option"
  tool_inputSchema :: json

record fn_descriptor =
  fd_name :: string
  fd_description :: "string option"
  fd_input_schema :: json

record tool_descriptor =
  td_type :: string
  td_function :: fn_descriptor

record fn_call =
  fc_name :: string
  fc_arguments :: string

record tool_call =
  tc_id :: string
  tc_function :: fn_call

record chat_message =
  msg_content :: "string option"
  msg_tool_calls :: "tool_call list option"

record choice =
  finish_reason :: string
  message :: chat_message

record completion =
  choices :: "choice list"

text \<open>
  The turns of the conversation: the dictionaries
  \<open>{"role": "user", "content": query}\<close>, \<open>content.message.model_dump()\<close> and
  \<open>{"role": "tool", "content": text, "tool_call_id": id}\<close>.
\<close>

datatype turn =
    UserTurn string
  | DumpedTurn chat_message
  | ToolTurn string string

record request =
  req_model :: "string option"
  req_messages :: "turn list"
  req_tools :: "tool_descriptor list option"

text \<open>A content block of a tool result has a \<open>text\<close> attribute only when it is text.\<close>

datatype content_block = TextContent string | OtherContent string

record call_tool_result =
  result_content :: "content_block list"
  result_isError :: bool

datatype stream = Stream nat

datatype session = ClientSession stream stream

record server_params =
  sp_command :: json
  sp_args :: json
  sp_env :: json

text \<open>The context managers that are entered on the exit stack.\<close>

datatype resource = StdioClient server_params | SessionCM session

text \<open>
  What \<open>__aexit__\<close> of a context manager does: it raises, or returns a value whose
  truth says whether the pending exception is suppressed.
\<close>

datatype exit_outcome = Raised error | Returned bool

subsection \<open>Events\<close>

text \<open>
  An item handed to \<open>print\<close>: literal text, or a value that \<open>print\<close> renders
  (the rendering of a value is not modelled).
\<close>

datatype out_item = Text string | Value json | Names "string list"

datatype event =
    Print "out_item list"
  | Input string "error + string"
  | EnterStdio server_params "error + stream \<times> stream"
  | EnterSession stream stream "error option"
  | Initialize session "error option"
  | ListTools session "error + tool list"
  | Complete request "error + completion"
  | CallTool session string json "error + call_tool_result"
  | Exit resource "error option" exit_outcome

record env =
  read_file :: "string \<Rightarrow> error + string"
  getenv :: "string \<Rightarrow> string option"
  json_loads :: "string \<Rightarrow> error + json"
  validate_params :: "json \<Rightarrow> json \<Rightarrow> json \<Rightarrow> error option"
  stdio_client_enter :: "event list \<Rightarrow> server_params \<Rightarrow> error + stream \<times> stream"
  session_enter :: "event list \<Rightarrow> stream \<Rightarrow> stream \<Rightarrow> error option"
  initialize :: "event list \<Rightarrow> session \<Rightarrow> error option"
  list_tools :: "event list \<Rightarrow> session \<Rightarrow> error + tool list"
  create :: "event list \<Rightarrow> request \<Rightarrow> error + completion"
  call_tool :: "event list \<Rightarrow> session \<Rightarrow> string \<Rightarrow> json \<Rightarrow> error + call_tool_result"
  aexit :: "event list \<Rightarrow> resource \<Rightarrow> error option \<Rightarrow> exit_outcome"

section \<open>The class \<open>MCPClient\<close>\<close>

record MCPClient =
  config_path :: string
  config :: json
  openai_api_key :: string
  base_url :: "string option"
  model :: "string option"
  exit_stack :: "resource list"
  stdio :: "stream option"
  write' :: "stream option"
  session :: "session option"

subsection \<open>\<open>process_query\<close>\<close>

definition render_tool :: "tool \<Rightarrow> tool_descriptor" where
  "render_tool t =
     \<lparr>td_type = ''function'',
      td_function = \<lparr>fd_name = tool_name t,
                     fd_description = tool_description t,
                     fd_input_schema = tool_inputSchema t\<rparr>\<rparr>"

text \<open>The line \<open>print(f"\\n\\n[Calling tool {tool_name} with args {tool_args}]\\n\\n")\<close>.\<close>

definition print_calling_tool :: "string \<Rightarrow> json \<Rightarrow> event" where
  "print_calling_tool name args =
     Print [Text ([CHR 0x0A, CHR 0x0A] @ ''[Calling tool ''), Text name,
            Text '' with args '', Value args, Text ('']'' @ [CHR 0x0A, CHR 0x0A])]"

text \<open>The second half of \<open>process_query\<close>: the branch taken when \<open>finish_reason\<close> is \<open>tool_calls\<close>.\<close>

definition tool_branch ::
  "env \<Rightarrow> MCPClient \<Rightarrow> session \<Rightarrow> turn list \<Rightarrow> choice \<Rightarrow> event list
     \<Rightarrow> (error + string option) \<times> event list" where
  "tool_branch E self sess messages content h =
     (case msg_tool_calls (message content) of
        None \<Rightarrow> (Inl (not_subscriptable ''NoneType''), h)
      | Some [] \<Rightarrow> (Inl index_out_of_range, h)
      | Some (tool_call # more_calls) \<Rightarrow>
          (let tool_name = fc_name (tc_function tool_call) in
           case json_loads E (fc_arguments (tc_function tool_call)) of
             Inl e \<Rightarrow> (Inl e, h)
           | Inr tool_args \<Rightarrow>
               (let r = call_tool E h sess tool_name tool_args;
                    h1 = h @ [CallTool sess tool_name tool_args r]
                in case r of
                     Inl e \<Rightarrow> (Inl e, h1)
                   | Inr result \<Rightarrow>
                       (let h2 = h1 @ [print_calling_tool tool_name tool_args];
                            messages1 = messages @ [DumpedTurn (message content)]
                        in case result_content result of
                             [] \<Rightarrow> (Inl index_out_of_range, h2)
                           | OtherContent ty # more_blocks \<Rightarrow> (Inl (no_attribute ty ''text''), h2)
                           | TextContent text # more_blocks \<Rightarrow>
                               (let messages2 = messages1 @ [ToolTurn text (tc_id tool_call)];
                                    req = \<lparr>req_model = model self,
                                           req_messages = messages2,
                                           req_tools = None\<rparr>;
                                    r2 = create E h2 req;
                                    h3 = h2 @ [Complete req r2]
                                in case r2 of
                                     Inl e \<Rightarrow> (Inl e, h3)
                                   | Inr response \<Rightarrow>
                                       (case choices response of
                                          [] \<Rightarrow> (Inl index_out_of_range, h3)
                                        | c # cs \<Rightarrow> (Inr (msg_content (message c)), h3)))))))"

definition process_query ::
  "env \<Rightarrow> MCPClient \<Rightarrow> string \<Rightarrow> event list \<Rightarrow> (error + string option) \<times> event list" where
  "process_query E self query h =
     (let messages = [UserTurn query] in
      case session self of
        None \<Rightarrow> (Inl (no_attribute ''NoneType'' ''list_tools''), h)
      | Some sess \<Rightarrow>
          (let r = list_tools E h sess;
               h1 = h @ [ListTools sess r]
           in case r of
                Inl e \<Rightarrow> (Inl e, h1)
              | Inr tools \<Rightarrow>
                  (let available_tools = map render_tool tools;
                       req = \<lparr>req_model = model self,
                              req_messages = messages,
                              req_tools = Some available_tools\<rparr>;
                       r1 = create E h1 req;
                       h2 = h1 @ [Complete req r1]
                   in case r1 of
                        Inl e \<Rightarrow> (Inl e, h2)
                      | Inr response \<Rightarrow>
                          (case choices response of
                             [] \<Rightarrow> (Inl index_out_of_range, h2)
                           | content # cs \<Rightarrow>
                               if finish_reason content = ''tool_calls''
                               then tool_branch E self sess messages content h2
                               else (Inr (msg_content (message content)), h2)))))"

subsection \<open>\<open>__init__\<close> and \<open>load_config\<close>\<close>

definition msg_no_api_key :: string where
  "msg_no_api_key =
     [CHR 0xE2, CHR 0x9D, CHR 0x8C] @ '' '' @
     [CHR 0xE6, CHR 0x9C, CHR 0xAA, CHR 0xE6, CHR 0x89, CHR 0xBE, CHR 0xE5, CHR 0x88, CHR 0xB0] @
     '' OpenAI API Key'' @
     [CHR 0xEF, CHR 0xBC, CHR 0x8C, CHR 0xE8, CHR 0xAF, CHR 0xB7, CHR 0xE5, CHR 0x9C, CHR 0xA8] @
     '' .env '' @
     [CHR 0xE6, CHR 0x96, CHR 0x87, CHR 0xE4, CHR 0xBB, CHR 0xB6, CHR 0xE4, CHR 0xB8, CHR 0xAD,
      CHR 0xE8, CHR 0xAE, CHR 0xBE, CHR 0xE7, CHR 0xBD, CHR 0xAE] @
     '' OPENAI_API_KEY''"

definition msg_config_prefix :: string where
  "msg_config_prefix =
     [CHR 0xE2, CHR 0x9D, CHR 0x8C] @ '' '' @
     [CHR 0xE9, CHR 0x85, CHR 0x8D, CHR 0xE7, CHR 0xBD, CHR 0xAE, CHR 0xE6, CHR 0x96, CHR 0x87,
      CHR 0xE4, CHR 0xBB, CHR 0xB6] @ '' ''"

definition msg_not_found_suffix :: string where
  "msg_not_found_suffix =
     '' '' @ [CHR 0xE6, CHR 0x9C, CHR 0xAA, CHR 0xE6, CHR 0x89, CHR 0xBE, CHR 0xE5, CHR 0x88, CHR 0xB0]"

definition msg_bad_format_suffix :: string where
  "msg_bad_format_suffix =
     '' '' @ [CHR 0xE6, CHR 0xA0, CHR 0xBC, CHR 0xE5, CHR 0xBC, CHR 0x8F, CHR 0xE9, CHR 0x94, CHR 0x99,
              CHR 0xE8, CHR 0xAF, CHR 0xAF]"

definition msg_no_servers :: string where
  "msg_no_servers =
     [CHR 0xE2, CHR 0x9D, CHR 0x8C] @ '' '' @
     [CHR 0xE9, CHR 0x85, CHR 0x8D, CHR 0xE7, CHR 0xBD, CHR 0xAE, CHR 0xE6, CHR 0x96, CHR 0x87,
      CHR 0xE4, CHR 0xBB, CHR 0xB6, CHR 0xE4, CHR 0xB8, CHR 0xAD, CHR 0xE6, CHR 0x9C, CHR 0xAA,
      CHR 0xE6, CHR 0x89, CHR 0xBE, CHR 0xE5, CHR 0x88, CHR 0xB0] @
     '' MCP '' @
     [CHR 0xE6, CHR 0x9C, CHR 0x8D, CHR 0xE5, CHR 0x8A, CHR 0xA1, CHR 0xE5, CHR 0x99, CHR 0xA8,
      CHR 0xE9, CHR 0x85, CHR 0x8D, CHR 0xE7, CHR 0xBD, CHR 0xAE]"

definition msg_get_failed :: string where
  "msg_get_failed =
     [CHR 0xE2, CHR 0x9D, CHR 0x8C] @ '' '' @
     [CHR 0xE8, CHR 0x8E, CHR 0xB7, CHR 0xE5, CHR 0x8F, CHR 0x96, CHR 0xE6, CHR 0x9C, CHR 0x8D,
      CHR 0xE5, CHR 0x8A, CHR 0xA1, CHR 0xE5, CHR 0x99, CHR 0xA8, CHR 0xE5, CHR 0x90, CHR 0x8D,
      CHR 0xE7, CHR 0xA7, CHR 0xB0, CHR 0xE5, CHR 0x92, CHR 0x8C, CHR 0xE9, CHR 0x85, CHR 0x8D,
      CHR 0xE7, CHR 0xBD, CHR 0xAE, CHR 0xE5, CHR 0xA4, CHR 0xB1, CHR 0xE8, CHR 0xB4, CHR 0xA5] @
     '': ''"

text \<open>
  \<open>load_config\<close>: \<open>open\<close> and \<open>f.read()\<close> are \<open>read_file\<close>, \<open>json.load\<close> is
  \<open>json_loads\<close> of the text read. Only \<open>FileNotFoundError\<close> and
  \<open>json.JSONDecodeError\<close> are translated; any other exception, of the file system
  or of the decoder (a \<open>RecursionError\<close>, say), passes through unchanged.
\<close>

definition load_config :: "env \<Rightarrow> string \<Rightarrow> error + json" where
  "load_config E path =
     (case read_file E path of
        Inl e \<Rightarrow>
          if exc_class_of e = FileNotFoundError
          then Inl (Exc FileNotFoundError (msg_config_prefix @ path @ msg_not_found_suffix))
          else Inl e
      | Inr text \<Rightarrow>
          (case json_loads E text of
             Inl e \<Rightarrow>
               if exc_class_of e = JSONDecodeError
               then Inl (Exc ValueError (msg_config_prefix @ path @ msg_bad_format_suffix))
               else Inl e
           | Inr cfg \<Rightarrow> Inr cfg))"

definition MCPClient_init :: "env \<Rightarrow> string \<Rightarrow> error + MCPClient" where
  "MCPClient_init E path =
     (case load_config E path of
        Inl e \<Rightarrow> Inl e
      | Inr cfg \<Rightarrow>
          (case getenv E ''OPENAI_API_KEY'' of
             None \<Rightarrow> Inl (Exc ValueError msg_no_api_key)
           | Some key \<Rightarrow>
               if key = [] then Inl (Exc ValueError msg_no_api_key)
               else Inr \<lparr>config_path = path,
                         config = cfg,
                         openai_api_key = key,
                         base_url = getenv E ''BASE_URL'',
                         model = getenv E ''MODEL'',
                         exit_stack = [],
                         stdio = None,
                         write' = None,
                         session = None\<rparr>))"

subsection \<open>\<open>get_server_name_and_config\<close> and \<open>connect_to_server\<close>\<close>

text \<open>The body of the \<open>try\<close> statement of \<open>get_server_name_and_config\<close>.\<close>

definition first_server :: "json \<Rightarrow> error + string \<times> json" where
  "first_server cfg =
     (case py_get cfg ''mcpServers'' (JObj []) of
        Inl e \<Rightarrow> Inl e
      | Inr mcp_servers \<Rightarrow>
          if \<not> truthy mcp_servers then Inl (Exc ValueError msg_no_servers)
          else
            (case py_getitem cfg ''mcpServers'' of
               Inl e \<Rightarrow> Inl e
             | Inr servers \<Rightarrow>
                 (case py_items servers of
                    Inl e \<Rightarrow> Inl e
                  | Inr [] \<Rightarrow> Inl (Exc StopIteration [])
                  | Inr (item # more_items) \<Rightarrow> Inr item)))"

definition get_server_name_and_config :: "MCPClient \<Rightarrow> error + string \<times> json" where
  "get_server_name_and_config self =
     (case first_server (config self) of
        Inl e \<Rightarrow>
          if is_Exception e then Inl (Exc ValueError (msg_get_failed @ str_of e)) else Inl e
      | Inr item \<Rightarrow> Inr item)"

text \<open>
  \<open>connect_to_server\<close>. Its parameter \<open>server_name\<close> is overwritten before it is read.
  \<open>enter_async_context\<close> pushes the context manager on the exit stack once its
  \<open>__aenter__\<close> has returned; the head of \<open>exit_stack\<close> is the top of the stack.
\<close>

definition connect_to_server ::
  "env \<Rightarrow> MCPClient \<Rightarrow> event list \<Rightarrow> (error + unit) \<times> MCPClient \<times> event list" where
  "connect_to_server E self h =
     (case get_server_name_and_config self of
        Inl e \<Rightarrow> (Inl e, self, h)
      | Inr (server_name, server_config) \<Rightarrow>
          (let h1 = h @ [Print [Text (''Connecting to server: '' @ server_name)]] in
           case py_get server_config ''command'' JNull of
             Inl e \<Rightarrow> (Inl e, self, h1)
           | Inr command \<Rightarrow>
           (case py_get server_config ''args'' (JArr []) of
             Inl e \<Rightarrow> (Inl e, self, h1)
           | Inr args \<Rightarrow>
           (case py_get server_config ''env'' (JObj []) of
             Inl e \<Rightarrow> (Inl e, self, h1)
           | Inr envv \<Rightarrow>
               (let h2 = h1 @ [Print [Text ''Server Command:'', Value command],
                               Print [Text ''Server Args:'', Value args],
                               Print [Text ''Server Env:'', Value envv]]
                in case validate_params E command args envv of
                     Some e \<Rightarrow> (Inl e, self, h2)
                   | None \<Rightarrow>
                       (let server_params = \<lparr>sp_command = command, sp_args = args, sp_env = envv\<rparr>;
                            r = stdio_client_enter E h2 server_params;
                            h3 = h2 @ [EnterStdio server_params r]
                        in case r of
                             Inl e \<Rightarrow> (Inl e, self, h3)
                           | Inr (rd, wr) \<Rightarrow>
                               (let self1 = self\<lparr>exit_stack := StdioClient server_params # exit_stack self,
                                                 stdio := Some rd,
                                                 write' := Some wr\<rparr>;
                                    r1 = session_enter E h3 rd wr;
                                    h4 = h3 @ [EnterSession rd wr r1]
                                in case r1 of
                                     Some e \<Rightarrow> (Inl e, self1, h4)
                                   | None \<Rightarrow>
                                       (let sess = ClientSession rd wr;
                                            self2 = self1\<lparr>exit_stack := SessionCM sess # exit_stack self1,
                                                           session := Some sess\<rparr>;
                                            r2 = initialize E h4 sess;
                                            h5 = h4 @ [Initialize sess r2]
                                        in case r2 of
                                             Some e \<Rightarrow> (Inl e, self2, h5)
                                           | None \<Rightarrow>
                                               (let r3 = list_tools E h5 sess;
                                                    h6 = h5 @ [ListTools sess r3]
                                                in case r3 of
                                                     Inl e \<Rightarrow> (Inl e, self2, h6)
                                                   | Inr tools \<Rightarrow>
                                                       (Inr (), self2,
                                                        h6 @ [Print [Text (CHR 0x0A # ''Connected to server with tools:''),
                                                                     Names (map tool_name tools)]]))))))))))"

subsection \<open>\<open>chat_loop\<close>\<close>

text \<open>
  Standard input is the list of what the successive calls of \<open>input\<close> yield: a line,
  or an interrupt of the blocked call. After the last item the stream is at its end:
  \<open>input\<close> raises \<open>EOFError\<close>, the handler \<open>except Exception\<close> prints it and the loop
  calls \<open>input\<close> again, for ever. Not returning is the value \<open>None\<close>.

  \<open>py_strip\<close> is \<open>str.strip()\<close> on the UTF-8 encoding: it removes, at both ends, the
  code points that Python counts as whitespace, which are the ASCII ones of
  \<open>py_isspace\<close>, U+0085 and U+00A0 (two bytes, \<open>space2\<close>) and U+1680, U+2000 to
  U+200A, U+2028, U+2029, U+202F, U+205F and U+3000 (three bytes, \<open>space3\<close>).
  \<open>drop_spaces\<close> removes them at the front of a string, or of a reversed string when
  \<open>backwards\<close> is set.

  \<open>py_lower\<close> lowers the ASCII letters and leaves every other byte as it is. The
  source uses \<open>lower()\<close> only in \<open>query.lower() == 'quit'\<close>, and no code point beyond
  ASCII has one of the letters of \<open>quit\<close> as its lower case, so that the comparison
  gives what Python's gives.
\<close>

datatype stdin_item = Line string | CtrlC

definition py_isspace :: "char \<Rightarrow> bool" where
  "py_isspace c =
     (let n = (of_char c :: nat) in (9 \<le> n \<and> n \<le> 13) \<or> (28 \<le> n \<and> n \<le> 32))"

definition space2 :: "nat \<Rightarrow> nat \<Rightarrow> bool" where
  "space2 a b = (a = 0xC2 \<and> (b = 0x85 \<or> b = 0xA0))"

definition space3 :: "nat \<Rightarrow> nat \<Rightarrow> nat \<Rightarrow> bool" where
  "space3 a b c =
     (a = 0xE1 \<and> b = 0x9A \<and> c = 0x80
      \<or> a = 0xE2 \<and> b = 0x80 \<and> (0x80 \<le> c \<and> c \<le> 0x8A \<or> c = 0xA8 \<or> c = 0xA9 \<or> c = 0xAF)
      \<or> a = 0xE2 \<and> b = 0x81 \<and> c = 0x9F
      \<or> a = 0xE3 \<and> b = 0x80 \<and> c = 0x80)"

fun drop_spaces :: "bool \<Rightarrow> string \<Rightarrow> string" where
  "drop_spaces backwards (a # b # c # s) =
     (if py_isspace a then drop_spaces backwards (b # c # s)
      else if (if backwards then space2 (of_char b) (of_char a) else space2 (of_char a) (of_char b))
        then drop_spaces backwards (c # s)
      else if (if backwards then space3 (of_char c) (of_char b) (of_char a)
               else space3 (of_char a) (of_char b) (of_char c))
        then drop_spaces backwards s
      else a # b # c # s)"
| "drop_spaces backwards [a, b] =
     (if py_isspace a then drop_spaces backwards [b]
      else if (if backwards then space2 (of_char b) (of_char a) else space2 (of_char a) (of_char b))
        then []
      else [a, b])"
| "drop_spaces backwards [a] = (if py_isspace a then [] else [a])"
| "drop_spaces backwards [] = []"

definition py_strip :: "string \<Rightarrow> string" where
  "py_strip s = rev (drop_spaces True (rev (drop_spaces False s)))"

definition py_lower :: "string \<Rightarrow> string" where
  "py_lower s =
     map (\<lambda>c. let n = (of_char c :: nat) in if 65 \<le> n \<and> n \<le> 90 then char_of (n + 32) else c) s"

definition query_prompt :: string where
  "query_prompt = CHR 0x0A # ''Query: ''"

definition print_error :: "error \<Rightarrow> event" where
  "print_error e = Print [Text (CHR 0x0A # ''Error: '' @ str_of e)]"

definition concat_none :: error where
  "concat_none = Exc TypeError
     (''can only concatenate str (not '' @ [CHR 0x22] @ ''NoneType'' @ [CHR 0x22] @ '') to str'')"

fun chat_iter ::
  "env \<Rightarrow> MCPClient \<Rightarrow> stdin_item list \<Rightarrow> event list \<Rightarrow> ((error + unit) \<times> event list) option" where
  "chat_iter E self [] h = None"
| "chat_iter E self (CtrlC # rest) h =
     (let e = Exc KeyboardInterrupt [] in Some (Inl e, h @ [Input query_prompt (Inl e)]))"
| "chat_iter E self (Line text # rest) h =
     (let h1 = h @ [Input query_prompt (Inr text)];
          query = py_strip text
      in if py_lower query = ''quit'' then Some (Inr (), h1)
         else
           (case process_query E self query h1 of
              (Inl e, h2) \<Rightarrow>
                if is_Exception e then chat_iter E self rest (h2 @ [print_error e])
                else Some (Inl e, h2)
            | (Inr None, h2) \<Rightarrow> chat_iter E self rest (h2 @ [print_error concat_none])
            | (Inr (Some response), h2) \<Rightarrow>
                chat_iter E self rest (h2 @ [Print [Text (CHR 0x0A # response)]])))"

definition chat_loop ::
  "env \<Rightarrow> MCPClient \<Rightarrow> stdin_item list \<Rightarrow> event list \<Rightarrow> ((error + unit) \<times> event list) option" where
  "chat_loop E self stdin h =
     chat_iter E self stdin
       (h @ [Print [Text (CHR 0x0A # ''MCP Client Started!'')],
             Print [Text (''Type your queries or '' @ [CHR 0x27] @ ''quit'' @ [CHR 0x27] @ '' to exit.'')]])"

subsection \<open>\<open>cleanup\<close>\<close>

text \<open>
  \<open>AsyncExitStack.aclose\<close> is \<open>__aexit__(None, None, None)\<close>: it pops the callbacks one
  by one, newest first, and calls each with the exception that is pending at that
  moment. A callback that raises makes its exception the pending one, a callback that
  returns a true value clears it; every callback is called whatever the earlier ones
  did, and the stack is empty afterwards. The exception left pending by the callbacks
  is raised at the end.
\<close>

fun run_exits ::
  "env \<Rightarrow> resource list \<Rightarrow> error option \<Rightarrow> bool \<Rightarrow> event list \<Rightarrow> error option \<times> bool \<times> event list" where
  "run_exits E [] exc pending_raise h = (exc, pending_raise, h)"
| "run_exits E (cb # cbs) exc pending_raise h =
     (let out = aexit E h cb exc;
          h1 = h @ [Exit cb exc out]
      in case out of
           Raised new_exc \<Rightarrow> run_exits E cbs (Some new_exc) True h1
         | Returned cb_suppress \<Rightarrow>
             if cb_suppress then run_exits E cbs None False h1
             else run_exits E cbs exc pending_raise h1)"

definition aclose :: "env \<Rightarrow> resource list \<Rightarrow> event list \<Rightarrow> (error + unit) \<times> event list" where
  "aclose E callbacks h =
     (case run_exits E callbacks None False h of
        (exc, pending_raise, h1) \<Rightarrow>
          (case exc of
             Some e \<Rightarrow> if pending_raise then (Inl e, h1) else (Inr (), h1)
           | None \<Rightarrow> (Inr (), h1)))"

definition cleanup ::
  "env \<Rightarrow> MCPClient \<Rightarrow> event list \<Rightarrow> (error + unit) \<times> MCPClient \<times> event list" where
  "cleanup E self h =
     (case aclose E (exit_stack self) h of
        (r, h1) \<Rightarrow> (r, self\<lparr>exit_stack := []\<rparr>, h1))"

section \<open>The coroutine \<open>main\<close>\<close>

text \<open>
  \<open>try: body finally: cleanup\<close>: \<open>cleanup\<close> runs when the body has returned or raised;
  an exception raised by \<open>cleanup\<close> is the one that leaves the statement, otherwise
  the outcome of the body does. \<open>main_try\<close> is the \<open>try\<close> statement of \<open>main\<close>, run
  on a client that \<open>MCPClient()\<close> has built.
\<close>

definition main_body ::
  "env \<Rightarrow> MCPClient \<Rightarrow> stdin_item list \<Rightarrow> event list
     \<Rightarrow> ((error + unit) \<times> MCPClient \<times> event list) option" where
  "main_body E client stdin h =
     (case connect_to_server E client h of
        (Inl e, client1, h1) \<Rightarrow> Some (Inl e, client1, h1)
      | (Inr u, client1, h1) \<Rightarrow>
          (case chat_loop E client1 stdin h1 of
             None \<Rightarrow> None
           | Some (r, h2) \<Rightarrow> Some (r, client1, h2)))"

definition main_try ::
  "env \<Rightarrow> MCPClient \<Rightarrow> stdin_item list \<Rightarrow> event list
     \<Rightarrow> ((error + unit) \<times> MCPClient \<times> event list) option" where
  "main_try E client stdin h =
     (case main_body E client stdin h of
        None \<Rightarrow> None
      | Some (r, client1, h1) \<Rightarrow>
          (case cleanup E client1 h1 of
             (Inl e, client2, h2) \<Rightarrow> Some (Inl e, client2, h2)
           | (Inr u, client2, h2) \<Rightarrow> Some (r, client2, h2)))"

definition main :: "env \<Rightarrow> stdin_item list \<Rightarrow> ((error + unit) \<times> event list) option" where
  "main E stdin =
     (case MCPClient_init E ''config.json'' of
        Inl e \<Rightarrow> Some (Inl e, [])
      | Inr client \<Rightarrow>
          (case main_try E client stdin [] of
             None \<Rightarrow> None
           | Some (r, client1, h) \<Rightarrow> Some (r, h)))"

section \<open>Reading a trace\<close>

fun is_complete :: "event \<Rightarrow> bool" where
  "is_complete (Complete req r) = True"
| "is_complete e = False"

fun is_call_tool :: "event \<Rightarrow> bool" where
  "is_call_tool (CallTool s n a r) = True"
| "is_call_tool e = False"

text \<open>The events that a run has appended to the trace \<open>h\<close> it started from.\<close>

definition new_events :: "event list \<Rightarrow> event list \<Rightarrow> event list" where
  "new_events h h' = drop (length h) h'"

text \<open>
  The context managers that were entered with success, in the order of their
  acquisition, and those whose \<open>__aexit__\<close> was called, in the order of the calls.
\<close>

fun acquired_by :: "event \<Rightarrow> resource list" where
  "acquired_by (EnterStdio p (Inr streams)) = [StdioClient p]"
| "acquired_by (EnterSession rd wr None) = [SessionCM (ClientSession rd wr)]"
| "acquired_by e = []"

fun released_by :: "event \<Rightarrow> resource list" where
  "released_by (Exit r exc out) = [r]"
| "released_by e = []"

definition acquired :: "event list \<Rightarrow> resource list" where
  "acquired h = concat (map acquired_by h)"

definition released :: "event list \<Rightarrow> resource list" where
  "released h = concat (map released_by h)"

text \<open>
  The invariant of a conversation: a tool-result turn comes right after a model turn
  that carries tool-invocation requests, and its \<open>tool_call_id\<close> is the \<open>id\<close> of the
  first of them. \<open>prev\<close> is the turn before the list, if any.
\<close>

fun answers :: "turn option \<Rightarrow> string \<Rightarrow> bool" where
  "answers (Some (DumpedTurn m)) call_id =
     (case msg_tool_calls m of
        Some (c # more_calls) \<Rightarrow> tc_id c = call_id
      | _ \<Rightarrow> False)"
| "answers prev call_id = False"

fun tool_results_follow :: "turn option \<Rightarrow> turn list \<Rightarrow> bool" where
  "tool_results_follow prev [] = True"
| "tool_results_follow prev (ToolTurn text call_id # ts) =
     (answers prev call_id \<and> tool_results_follow (Some (ToolTurn text call_id)) ts)"
| "tool_results_follow prev (t # ts) = tool_results_follow (Some t) ts"

definition conversation_ok :: "turn list \<Rightarrow> bool" where
  "conversation_ok ts = tool_results_follow None ts"

section \<open>A concrete environment\<close>

text \<open>
  One server that offers the tool \<open>list_tables\<close>, a model that asks for two tool calls
  on its first reply and asks for one more on its second, and variants of it. The JSON
  decoder of the example is a table: it knows the text of the configuration file and
  the arguments \<open>{}\<close>, and raises \<open>JSONDecodeError\<close> on any other text.
\<close>

definition demo_config_text :: string where
  "demo_config_text = ''{mcpServers: {mcp-clickhouse: {command: uv, args: [run]}, second: {}}}''"

definition demo_server_config :: json where
  "demo_server_config = JObj [(''command'', JStr ''uv''), (''args'', JArr [JStr ''run''])]"

definition demo_config :: json where
  "demo_config =
     JObj [(''mcpServers'', JObj [(''mcp-clickhouse'', demo_server_config), (''second'', JObj [])])]"

definition demo_params :: server_params where
  "demo_params = \<lparr>sp_command = JStr ''uv'', sp_args = JArr [JStr ''run''], sp_env = JObj []\<rparr>"

definition demo_session :: session where
  "demo_session = ClientSession (Stream 0) (Stream 1)"

definition demo_tool :: tool where
  "demo_tool = \<lparr>tool_name = ''list_tables'',
                tool_description = Some ''List the tables'',
                tool_inputSchema = JObj [(''type'', JStr ''object'')]\<rparr>"

definition demo_call :: tool_call where
  "demo_call = \<lparr>tc_id = ''call_1'',
                tc_function = \<lparr>fc_name = ''list_tables'', fc_arguments = ''{}''\<rparr>\<rparr>"

definition demo_call2 :: tool_call where
  "demo_call2 = \<lparr>tc_id = ''call_2'',
                 tc_function = \<lparr>fc_name = ''drop_tables'', fc_arguments = ''{}''\<rparr>\<rparr>"

definition demo_tool_message :: chat_message where
  "demo_tool_message = \<lparr>msg_content = None, msg_tool_calls = Some [demo_call, demo_call2]\<rparr>"

definition demo_tool_reply :: completion where
  "demo_tool_reply = \<lparr>choices = [\<lparr>finish_reason = ''tool_calls'', message = demo_tool_message\<rparr>]\<rparr>"

definition demo_final_reply :: completion where
  "demo_final_reply =
     \<lparr>choices = [\<lparr>finish_reason = ''tool_calls'',
                  message = \<lparr>msg_content = Some ''There are two tables.'',
                             msg_tool_calls = Some [demo_call2]\<rparr>\<rparr>]\<rparr>"

definition demo_plain_reply :: completion where
  "demo_plain_reply =
     \<lparr>choices = [\<lparr>finish_reason = ''stop'',
                  message = \<lparr>msg_content = Some ''Hello!'', msg_tool_calls = None\<rparr>\<rparr>]\<rparr>"

definition demo_result :: call_tool_result where
  "demo_result = \<lparr>result_content = [TextContent ''[orders, users]'', TextContent ''more''],
                  result_isError = False\<rparr>"

definition demo_decode_message :: string where
  "demo_decode_message = ''Expecting value: line 1 column 1 (char 0)''"

definition demo_env :: env where
  "demo_env =
     \<lparr>read_file = (\<lambda>path. if path = ''config.json'' then Inr demo_config_text
                           else Inl (Exc FileNotFoundError path)),
      getenv = (\<lambda>name. if name = ''OPENAI_API_KEY'' then Some ''sk-test''
                        else if name = ''MODEL'' then Some ''gpt-4o'' else None),
      json_loads = (\<lambda>text. if text = ''{}'' then Inr (JObj [])
                            else if text = demo_config_text then Inr demo_config
                            else Inl (Exc JSONDecodeError demo_decode_message)),
      validate_params = (\<lambda>command args envv. None),
      stdio_client_enter = (\<lambda>h p. Inr (Stream 0, Stream 1)),
      session_enter = (\<lambda>h rd wr. None),
      initialize = (\<lambda>h s. None),
      list_tools = (\<lambda>h s. Inr [demo_tool]),
      create = (\<lambda>h req. case req_tools req of
                           Some ds \<Rightarrow> Inr demo_tool_reply
                         | None \<Rightarrow> Inr demo_final_reply),
      call_tool = (\<lambda>h s name args. Inr demo_result),
      aexit = (\<lambda>h r exc. Returned False)\<rparr>"

definition demo_client :: MCPClient where
  "demo_client =
     \<lparr>config_path = ''config.json'',
      config = demo_config,
      openai_api_key = ''sk-test'',
      base_url = None,
      model = Some ''gpt-4o'',
      exit_stack = [SessionCM demo_session, StdioClient demo_params],
      stdio = Some (Stream 0),
      write' = Some (Stream 1),
      session = Some demo_session\<rparr>"

definition demo_first_request :: "string \<Rightarrow> request" where
  "demo_first_request query =
     \<lparr>req_model = Some ''gpt-4o'', req_messages = [UserTurn query],
      req_tools = Some [render_tool demo_tool]\<rparr>"

definition demo_second_request :: "string \<Rightarrow> request" where
  "demo_second_request query =
     \<lparr>req_model = Some ''gpt-4o'',
      req_messages = [UserTurn query, DumpedTurn demo_tool_message,
                      ToolTurn ''[orders, users]'' ''call_1''],
      req_tools = None\<rparr>"

text \<open>The model answers in plain text.\<close>

definition plain_env :: env where
  "plain_env = demo_env\<lparr>create := (\<lambda>h req. Inr demo_plain_reply)\<rparr>"

text \<open>The tool call fails: the server reports an error, or the session is closed.\<close>

definition tool_error :: error where
  "tool_error = Exc (OtherException ''McpError'') ''tool execution failed''"

definition failing_tool_env :: env where
  "failing_tool_env = demo_env\<lparr>call_tool := (\<lambda>h s name args. Inl tool_error)\<rparr>"

text \<open>The arguments of the requested tool call do not decode.\<close>

definition bad_call :: tool_call where
  "bad_call = \<lparr>tc_id = ''call_3'',
               tc_function = \<lparr>fc_name = ''list_tables'', fc_arguments = ''{database: ''\<rparr>\<rparr>"

definition bad_arguments_reply :: completion where
  "bad_arguments_reply =
     \<lparr>choices = [\<lparr>finish_reason = ''tool_calls'',
                  message = \<lparr>msg_content = None, msg_tool_calls = Some [bad_call]\<rparr>\<rparr>]\<rparr>"

definition bad_arguments_env :: env where
  "bad_arguments_env = demo_env\<lparr>create := (\<lambda>h req. Inr bad_arguments_reply)\<rparr>"

text \<open>
  The tool fails and the session reports it in the result: \<open>isError\<close> is set and the
  content is the message of the failure.
\<close>

definition error_result :: call_tool_result where
  "error_result = \<lparr>result_content = [TextContent ''Error: unknown database''],
                   result_isError = True\<rparr>"

definition error_result_env :: env where
  "error_result_env = demo_env\<lparr>call_tool := (\<lambda>h s name args. Inr error_result)\<rparr>"

definition error_second_request :: "string \<Rightarrow> request" where
  "error_second_request query =
     \<lparr>req_model = Some ''gpt-4o'',
      req_messages = [UserTurn query, DumpedTurn demo_tool_message,
                      ToolTurn ''Error: unknown database'' ''call_1''],
      req_tools = None\<rparr>"



text \<open>
  The first reply carries no tool-invocation request, and its \<open>finish_reason\<close> is
  \<open>tool_calls\<close>.
\<close>

definition empty_flagged_reply :: completion where
  "empty_flagged_reply =
     \<lparr>choices = [\<lparr>finish_reason = ''tool_calls'',
                  message = \<lparr>msg_content = Some ''Hello!'', msg_tool_calls = None\<rparr>\<rparr>]\<rparr>"

definition empty_flagged_env :: env where
  "empty_flagged_env = demo_env\<lparr>create := (\<lambda>h req. Inr empty_flagged_reply)\<rparr>"

text \<open>The tool result has no content block.\<close>

definition empty_result_env :: env where
  "empty_result_env =
     demo_env\<lparr>call_tool := (\<lambda>h s name args. Inr \<lparr>result_content = [], result_isError = False\<rparr>)\<rparr>"

text \<open>Leaving the session's context fails.\<close>

definition exit_error :: error where
  "exit_error = Exc (OtherException ''RuntimeError'') ''session exit failed''"

definition failing_exit_env :: env where
  "failing_exit_env =
     demo_env\<lparr>aexit := (\<lambda>h r exc. case r of SessionCM s \<Rightarrow> Raised exit_error
                                          | StdioClient p \<Rightarrow> Returned False)\<rparr>"

text \<open>The client as \<open>MCPClient()\<close> builds it, and the events of a successful start.\<close>

definition demo_fresh_client :: MCPClient where
  "demo_fresh_client =
     \<lparr>config_path = ''config.json'',
      config = demo_config,
      openai_api_key = ''sk-test'',
      base_url = None,
      model = Some ''gpt-4o'',
      exit_stack = [],
      stdio = None,
      write' = None,
      session = None\<rparr>"

definition no_servers_client :: MCPClient where
  "no_servers_client = demo_fresh_client\<lparr>config := JObj [(''mcpServers'', JObj [])]\<rparr>"

definition demo_connected_trace :: "event list" where
  "demo_connected_trace =
     [Print [Text ''Connecting to server: mcp-clickhouse''],
      Print [Text ''Server Command:'', Value (JStr ''uv'')],
      Print [Text ''Server Args:'', Value (JArr [JStr ''run''])],
      Print [Text ''Server Env:'', Value (JObj [])],
      EnterStdio demo_params (Inr (Stream 0, Stream 1)),
      EnterSession (Stream 0) (Stream 1) None,
      Initialize demo_session None,
      ListTools demo_session (Inr [demo_tool]),
      Print [Text (CHR 0x0A # ''Connected to server with tools:''), Names [''list_tables'']]]"

definition demo_started_trace :: "event list" where
  "demo_started_trace =
     demo_connected_trace @
     [Print [Text (CHR 0x0A # ''MCP Client Started!'')],
      Print [Text (''Type your queries or '' @ [CHR 0x27] @ ''quit'' @ [CHR 0x27] @ '' to exit.'')]]"

definition demo_quit_trace :: "event list" where
  "demo_quit_trace =
     demo_started_trace @
     [Input query_prompt (Inr ''quit''),
      Exit (SessionCM demo_session) None (Returned False),
      Exit (StdioClient demo_params) None (Returned False)]"

text \<open>An interrupt at the first prompt, with the environment whose session fails to close.\<close>

definition demo_interrupted_trace :: "event list" where
  "demo_interrupted_trace =
     demo_started_trace @
     [Input query_prompt (Inl (Exc KeyboardInterrupt [])),
      Exit (SessionCM demo_session) None (Raised exit_error),
      Exit (StdioClient demo_params) (Some exit_error) (Returned False)]"

section \<open>Properties of \<open>process_query\<close>\<close>

lemma process_query_cases [case_names no_session catalog_failed model_failed no_choice plain tool]:
  obtains
    (no_session) "session self = None"
      "process_query E self query h = (Inl (no_attribute ''NoneType'' ''list_tools''), h)"
  | (catalog_failed) sess e where "session self = Some sess" "list_tools E h sess = Inl e"
      "process_query E self query h = (Inl e, h @ [ListTools sess (Inl e)])"
  | (model_failed) sess tools e where "session self = Some sess" "list_tools E h sess = Inr tools"
      "create E (h @ [ListTools sess (Inr tools)])
         \<lparr>req_model = model self, req_messages = [UserTurn query],
          req_tools = Some (map render_tool tools)\<rparr> = Inl e"
      "process_query E self query h =
         (Inl e, h @ [ListTools sess (Inr tools),
                      Complete \<lparr>req_model = model self, req_messages = [UserTurn query],
                                req_tools = Some (map render_tool tools)\<rparr> (Inl e)])"
  | (no_choice) sess tools response where "session self = Some sess"
      "list_tools E h sess = Inr tools"
      "create E (h @ [ListTools sess (Inr tools)])
         \<lparr>req_model = model self, req_messages = [UserTurn query],
          req_tools = Some (map render_tool tools)\<rparr> = Inr response"
      "choices response = []"
      "process_query E self query h =
         (Inl index_out_of_range,
          h @ [ListTools sess (Inr tools),
               Complete \<lparr>req_model = model self, req_messages = [UserTurn query],
                         req_tools = Some (map render_tool tools)\<rparr> (Inr response)])"
  | (plain) sess tools response content cs where "session self = Some sess"
      "list_tools E h sess = Inr tools"
      "create E (h @ [ListTools sess (Inr tools)])
         \<lparr>req_model = model self, req_messages = [UserTurn query],
          req_tools = Some (map render_tool tools)\<rparr> = Inr response"
      "choices response = content # cs"
      "finish_reason content \<noteq> ''tool_calls''"
      "process_query E self query h =
         (Inr (msg_content (message content)),
          h @ [ListTools sess (Inr tools),
               Complete \<lparr>req_model = model self, req_messages = [UserTurn query],
                         req_tools = Some (map render_tool tools)\<rparr> (Inr response)])"
  | (tool) sess tools response content cs where "session self = Some sess"
      "list_tools E h sess = Inr tools"
      "create E (h @ [ListTools sess (Inr tools)])
         \<lparr>req_model = model self, req_messages = [UserTurn query],
          req_tools = Some (map render_tool tools)\<rparr> = Inr response"
      "choices response = content # cs"
      "finish_reason content = ''tool_calls''"
      "process_query E self query h =
         tool_branch E self sess [UserTurn query] content
           (h @ [ListTools sess (Inr tools),
                 Complete \<lparr>req_model = model self, req_messages = [UserTurn query],
                           req_tools = Some (map render_tool tools)\<rparr> (Inr response)])"
proof (cases "session self")
  case None
  then show ?thesis using no_session by (simp add: process_query_def)
next
  case (Some sess)
  show ?thesis
  proof (cases "list_tools E h sess")
    case (Inl e)
    with Some show ?thesis using catalog_failed by (simp add: process_query_def)
  next
    case catalog: (Inr tools)
    let ?req = "\<lparr>req_model = model self, req_messages = [UserTurn query],
                 req_tools = Some (map render_tool tools)\<rparr>"
    show ?thesis
    proof (cases "create E (h @ [ListTools sess (Inr tools)]) ?req")
      case (Inl e)
      with Some catalog show ?thesis using model_failed by (simp add: process_query_def)
    next
      case reply: (Inr response)
      show ?thesis
      proof (cases "choices response")
        case Nil
        with Some catalog reply show ?thesis using no_choice by (simp add: process_query_def)
      next
        case (Cons content cs)
        show ?thesis
        proof (cases "finish_reason content = ''tool_calls''")
          case False
          with Some catalog reply Cons show ?thesis using plain by (simp add: process_query_def)
        next
          case True
          with Some catalog reply Cons show ?thesis using tool
            by (simp add: process_query_def Let_def)
        qed
      qed
    qed
  qed
qed

lemma tool_branch_trace:
  "\<exists>evs. snd (tool_branch E self sess msgs content h) = h @ evs
      \<and> length (filter is_call_tool evs) \<le> 1 \<and> length (filter is_complete evs) \<le> 1"
  unfolding tool_branch_def Let_def
  by (simp add: print_calling_tool_def split: option.split sum.split list.split content_block.split)





text \<open>
  C3, as the code has it. When the \<open>finish_reason\<close> of the first reply of the model is
  not \<open>tool_calls\<close> (the one test of the code; the requests that the reply may carry
  are not looked at), \<open>process_query\<close> returns the content of that reply unchanged,
  and the run consists of the catalog query and one call of the model: no tool call,
  no second call of the model.
\<close>

theorem process_query_plain_reply:
  "(let req = \<lparr>req_model = model self, req_messages = [UserTurn query],
               req_tools = Some (map render_tool tools)\<rparr>;
        h1 = h @ [ListTools sess (Inr tools)]
    in session self = Some sess \<and> list_tools E h sess = Inr tools
       \<and> create E h1 req = Inr response
       \<and> choices response = content # cs
       \<and> finish_reason content \<noteq> ''tool_calls''
     \<longrightarrow> process_query E self query h
           = (Inr (msg_content (message content)), h1 @ [Complete req (Inr response)])
         \<and> length (filter is_complete (new_events h (snd (process_query E self query h)))) = 1
         \<and> filter is_call_tool (new_events h (snd (process_query E self query h))) = [])"
  by (simp add: process_query_def Let_def new_events_def)

theorem process_query_plain_reply_witness:
  "session demo_client = Some demo_session
   \<and> list_tools plain_env [] demo_session = Inr [demo_tool]
   \<and> create plain_env [ListTools demo_session (Inr [demo_tool])] (demo_first_request ''hello'')
       = Inr demo_plain_reply
   \<and> finish_reason (hd (choices demo_plain_reply)) \<noteq> ''tool_calls''
   \<and> process_query plain_env demo_client ''hello'' []
       = (Inr (Some ''Hello!''),
          [ListTools demo_session (Inr [demo_tool]),
           Complete (demo_first_request ''hello'') (Inr demo_plain_reply)])
   \<and> length (filter is_complete (new_events [] (snd (process_query plain_env demo_client ''hello'' [])))) = 1
   \<and> filter is_call_tool (new_events [] (snd (process_query plain_env demo_client ''hello'' []))) = []"
  using process_query_plain_reply
    [where self = demo_client and query = "''hello''" and tools = "[demo_tool]" and h = "[]"
       and sess = demo_session and E = plain_env and response = demo_plain_reply
       and content = "hd (choices demo_plain_reply)" and cs = "[]"]
  by (simp add: demo_client_def plain_env_def demo_env_def demo_plain_reply_def
      demo_first_request_def Let_def new_events_def)

text \<open>
  C3, as the claim states it, fails: a first reply that carries no tool-invocation
  request and whose \<open>finish_reason\<close> is \<open>tool_calls\<close> makes \<open>process_query\<close> raise a
  \<open>TypeError\<close> in place of returning the text of the reply.
\<close>

theorem process_query_flag_without_request_raises:
  "msg_tool_calls (message (hd (choices empty_flagged_reply))) = None
   \<and> msg_content (message (hd (choices empty_flagged_reply))) = Some ''Hello!''
   \<and> process_query empty_flagged_env demo_client ''hello'' []
       = (Inl (not_subscriptable ''NoneType''),
          [ListTools demo_session (Inr [demo_tool]),
           Complete (demo_first_request ''hello'') (Inr empty_flagged_reply)])"
  by (simp add: process_query_def tool_branch_def demo_client_def empty_flagged_env_def
      demo_env_def empty_flagged_reply_def demo_first_request_def Let_def)

text \<open>
  C2, as the code has it. \<open>process_query\<close> has no handler around \<open>call_tool\<close>. When the
  tool call raises, whatever the exception, \<open>process_query\<close> raises that exception: no
  tool-result turn is built, the model is not called again, and the trace ends with
  the failed call. When the session returns the failure as a result (\<open>isError\<close> is
  set) that starts with a text block, the query goes on: that text is the content of
  the tool-result turn (the flag \<open>isError\<close> itself is not passed on), the model is
  called again with that history and the content of its reply is the answer.
\<close>

theorem process_query_tool_failure_paths:
  "(let req1 = \<lparr>req_model = model self, req_messages = [UserTurn query],
                req_tools = Some (map render_tool tools)\<rparr>;
        h2 = h @ [ListTools sess (Inr tools), Complete req1 (Inr response)];
        name = fc_name (tc_function tool_call);
        h4 = h2 @ [CallTool sess name tool_args (Inr result), print_calling_tool name tool_args];
        req2 = \<lparr>req_model = model self,
                req_messages = [UserTurn query, DumpedTurn (message content),
                                ToolTurn tool_text (tc_id tool_call)],
                req_tools = None\<rparr>
    in session self = Some sess
       \<and> list_tools E h sess = Inr tools
       \<and> create E (h @ [ListTools sess (Inr tools)]) req1 = Inr response
       \<and> choices response = content # cs
       \<and> finish_reason content = ''tool_calls''
       \<and> msg_tool_calls (message content) = Some (tool_call # more_calls)
       \<and> json_loads E (fc_arguments (tc_function tool_call)) = Inr tool_args
     \<longrightarrow> (call_tool E h2 sess name tool_args = Inl e
          \<longrightarrow> process_query E self query h
                = (Inl e, h2 @ [CallTool sess name tool_args (Inl e)]))
         \<and> (call_tool E h2 sess name tool_args = Inr result
             \<and> result_isError result
             \<and> result_content result = TextContent tool_text # more_blocks
             \<and> create E h4 req2 = Inr final_response
             \<and> choices final_response = final # more_choices
            \<longrightarrow> process_query E self query h
                  = (Inr (msg_content (message final)),
                     h4 @ [Complete req2 (Inr final_response)])))"
  by (simp add: process_query_def tool_branch_def Let_def)

theorem process_query_tool_failure_paths_witness:
  "session demo_client = Some demo_session
   \<and> list_tools failing_tool_env [] demo_session = Inr [demo_tool]
   \<and> create failing_tool_env [ListTools demo_session (Inr [demo_tool])]
        (demo_first_request ''what tables exist?'') = Inr demo_tool_reply
   \<and> finish_reason (hd (choices demo_tool_reply)) = ''tool_calls''
   \<and> msg_tool_calls (message (hd (choices demo_tool_reply))) = Some [demo_call, demo_call2]
   \<and> json_loads failing_tool_env (fc_arguments (tc_function demo_call)) = Inr (JObj [])
   \<and> call_tool failing_tool_env
        [ListTools demo_session (Inr [demo_tool]),
         Complete (demo_first_request ''what tables exist?'') (Inr demo_tool_reply)]
        demo_session ''list_tables'' (JObj []) = Inl tool_error
   \<and> process_query failing_tool_env demo_client ''what tables exist?'' []
       = (Inl tool_error,
          [ListTools demo_session (Inr [demo_tool]),
           Complete (demo_first_request ''what tables exist?'') (Inr demo_tool_reply),
           CallTool demo_session ''list_tables'' (JObj []) (Inl tool_error)])
   \<and> call_tool error_result_env
        [ListTools demo_session (Inr [demo_tool]),
         Complete (demo_first_request ''what tables exist?'') (Inr demo_tool_reply)]
        demo_session ''list_tables'' (JObj []) = Inr error_result
   \<and> result_isError error_result
   \<and> result_content error_result = [TextContent ''Error: unknown database'']
   \<and> process_query error_result_env demo_client ''what tables exist?'' []
       = (Inr (Some ''There are two tables.''),
          [ListTools demo_session (Inr [demo_tool]),
           Complete (demo_first_request ''what tables exist?'') (Inr demo_tool_reply),
           CallTool demo_session ''list_tables'' (JObj []) (Inr error_result),
           print_calling_tool ''list_tables'' (JObj []),
           Complete (error_second_request ''what tables exist?'') (Inr demo_final_reply)])"
  using process_query_tool_failure_paths
    [where self = demo_client and query = "''what tables exist?''" and tools = "[demo_tool]"
       and h = "[]" and sess = demo_session and response = demo_tool_reply
       and tool_call = demo_call and E = failing_tool_env
       and content = "hd (choices demo_tool_reply)" and cs = "[]"
       and more_calls = "[demo_call2]" and tool_args = "JObj []" and e = tool_error]
    process_query_tool_failure_paths
    [where self = demo_client and query = "''what tables exist?''" and tools = "[demo_tool]"
       and h = "[]" and sess = demo_session and response = demo_tool_reply
       and tool_call = demo_call and E = error_result_env
       and content = "hd (choices demo_tool_reply)" and cs = "[]"
       and more_calls = "[demo_call2]" and tool_args = "JObj []" and result = error_result
       and tool_text = "''Error: unknown database''" and more_blocks = "[]"
       and final_response = demo_final_reply and final = "hd (choices demo_final_reply)"
       and more_choices = "[]"]
  by (simp add: demo_client_def failing_tool_env_def error_result_env_def demo_env_def
      demo_tool_reply_def demo_final_reply_def demo_first_request_def
      error_second_request_def demo_tool_message_def demo_call_def error_result_def Let_def)

text \<open>
  C2, as the claim states it, fails: when the call of a tool raises an exception that
  is not a closed session, the query is aborted with that exception, after a single
  call of the model.
\<close>

theorem process_query_tool_failure_not_recovered:
  "call_tool failing_tool_env
     [ListTools demo_session (Inr [demo_tool]),
      Complete (demo_first_request ''what tables exist?'') (Inr demo_tool_reply)]
     demo_session ''list_tables'' (JObj []) = Inl tool_error
   \<and> fst (process_query failing_tool_env demo_client ''what tables exist?'' []) = Inl tool_error
   \<and> length (filter is_complete (snd (process_query failing_tool_env demo_client ''what tables exist?'' []))) = 1"
  by (simp add: process_query_def tool_branch_def demo_client_def failing_tool_env_def
      demo_env_def demo_tool_reply_def demo_first_request_def demo_tool_message_def
      demo_call_def Let_def)

text \<open>
  C9. On the tool path: when the arguments of the requested call do not decode,
  \<open>process_query\<close> raises the decoder's error before any tool is called, and the trace
  holds nothing after the reply of the model (no collaborator has been touched since).
  When the tool returns a result with no content block, \<open>process_query\<close> raises an
  \<open>IndexError\<close> after the tool call and before a second call of the model. When the
  result starts with a text block, the tool turn sent to the model carries the text of
  that first block only, whatever blocks follow.
\<close>

theorem process_query_failures_before_answer:
  "(let req1 = \<lparr>req_model = model self, req_messages = [UserTurn query],
                req_tools = Some (map render_tool tools)\<rparr>;
        h2 = h @ [ListTools sess (Inr tools), Complete req1 (Inr response)];
        name = fc_name (tc_function tool_call);
        arguments = fc_arguments (tc_function tool_call)
    in session self = Some sess
       \<and> list_tools E h sess = Inr tools
       \<and> create E (h @ [ListTools sess (Inr tools)]) req1 = Inr response
       \<and> choices response = content # cs
       \<and> finish_reason content = ''tool_calls''
       \<and> msg_tool_calls (message content) = Some (tool_call # more_calls)
     \<longrightarrow> (\<forall>e. json_loads E arguments = Inl e
              \<longrightarrow> process_query E self query h = (Inl e, h2))
         \<and> (\<forall>tool_args result.
               json_loads E arguments = Inr tool_args
               \<and> call_tool E h2 sess name tool_args = Inr result
               \<longrightarrow> (let h4 = h2 @ [CallTool sess name tool_args (Inr result),
                                     print_calling_tool name tool_args]
                    in (result_content result = []
                          \<longrightarrow> process_query E self query h = (Inl index_out_of_range, h4))
                       \<and> (\<forall>tool_text more_blocks.
                             result_content result = TextContent tool_text # more_blocks
                             \<longrightarrow> (let req2 = \<lparr>req_model = model self,
                                                 req_messages = [UserTurn query,
                                                                 DumpedTurn (message content),
                                                                 ToolTurn tool_text (tc_id tool_call)],
                                                 req_tools = None\<rparr>
                                  in snd (process_query E self query h)
                                     = h4 @ [Complete req2 (create E h4 req2)])))))"
  by (auto simp add: process_query_def tool_branch_def Let_def split: sum.split list.split)

theorem process_query_failures_before_answer_witness:
  "json_loads bad_arguments_env (fc_arguments (tc_function bad_call))
     = Inl (Exc JSONDecodeError demo_decode_message)
   \<and> process_query bad_arguments_env demo_client ''what tables exist?'' []
       = (Inl (Exc JSONDecodeError demo_decode_message),
          [ListTools demo_session (Inr [demo_tool]),
           Complete (demo_first_request ''what tables exist?'') (Inr bad_arguments_reply)])
   \<and> json_loads empty_result_env (fc_arguments (tc_function demo_call)) = Inr (JObj [])
   \<and> process_query empty_result_env demo_client ''what tables exist?'' []
       = (Inl index_out_of_range,
          [ListTools demo_session (Inr [demo_tool]),
           Complete (demo_first_request ''what tables exist?'') (Inr demo_tool_reply),
           CallTool demo_session ''list_tables'' (JObj [])
             (Inr \<lparr>result_content = [], result_isError = False\<rparr>),
           print_calling_tool ''list_tables'' (JObj [])])
   \<and> result_content demo_result = [TextContent ''[orders, users]'', TextContent ''more'']
   \<and> snd (process_query demo_env demo_client ''what tables exist?'' [])
       = [ListTools demo_session (Inr [demo_tool]),
          Complete (demo_first_request ''what tables exist?'') (Inr demo_tool_reply),
          CallTool demo_session ''list_tables'' (JObj []) (Inr demo_result),
          print_calling_tool ''list_tables'' (JObj []),
          Complete (demo_second_request ''what tables exist?'') (Inr demo_final_reply)]"
  using process_query_failures_before_answer [where E = bad_arguments_env and self = demo_client
      and query = "''what tables exist?''" and tools = "[demo_tool]" and h = "[]"
      and sess = demo_session and response = bad_arguments_reply and tool_call = bad_call
      and content = "hd (choices bad_arguments_reply)" and cs = "[]" and more_calls = "[]"]
    process_query_failures_before_answer [where E = empty_result_env and self = demo_client
      and query = "''what tables exist?''" and tools = "[demo_tool]" and h = "[]"
      and sess = demo_session and response = demo_tool_reply and tool_call = demo_call
      and content = "hd (choices demo_tool_reply)" and cs = "[]" and more_calls = "[demo_call2]"]
    process_query_failures_before_answer [where E = demo_env and self = demo_client
      and query = "''what tables exist?''" and tools = "[demo_tool]" and h = "[]"
      and sess = demo_session and response = demo_tool_reply and tool_call = demo_call
      and content = "hd (choices demo_tool_reply)" and cs = "[]" and more_calls = "[demo_call2]"]
  by (simp add: demo_client_def bad_arguments_env_def empty_result_env_def demo_env_def
      demo_tool_reply_def demo_final_reply_def demo_first_request_def demo_second_request_def
      demo_tool_message_def demo_call_def demo_result_def bad_arguments_reply_def bad_call_def
      demo_config_text_def Let_def)

text \<open>
  C5. With a session whose catalog query succeeds, a run of \<open>process_query\<close> starts
  with that query and the first call of the model, which receives the whole history
  (the user turn) and one descriptor per tool of the catalog just fetched, in the same
  order, each of type \<open>function\<close> with the name, the description and the input schema
  of its tool.
\<close>

theorem process_query_first_request:
  "session self = Some sess \<and> list_tools E h sess = Inr tools
   \<longrightarrow> (let h1 = h @ [ListTools sess (Inr tools)];
            req = \<lparr>req_model = model self, req_messages = [UserTurn query],
                   req_tools = Some (map render_tool tools)\<rparr>
        in take 2 (new_events h (snd (process_query E self query h)))
             = [ListTools sess (Inr tools), Complete req (create E h1 req)]
           \<and> length (map render_tool tools) = length tools
           \<and> (\<forall>i < length tools.
                 td_type (map render_tool tools ! i) = ''function''
                 \<and> fd_name (td_function (map render_tool tools ! i)) = tool_name (tools ! i)
                 \<and> fd_description (td_function (map render_tool tools ! i)) = tool_description (tools ! i)
                 \<and> fd_input_schema (td_function (map render_tool tools ! i)) = tool_inputSchema (tools ! i)))"
proof (intro impI)
  assume a: "session self = Some sess \<and> list_tools E h sess = Inr tools"
  let ?h1 = "h @ [ListTools sess (Inr tools)]"
  let ?req = "\<lparr>req_model = model self, req_messages = [UserTurn query],
                req_tools = Some (map render_tool tools)\<rparr>"
  have tr: "take 2 (new_events h (snd (process_query E self query h)))
             = [ListTools sess (Inr tools), Complete ?req (create E ?h1 ?req)]"
  proof (cases rule: process_query_cases [of self E query h])
    case (tool sess' tools' response content cs)
    obtain evs where "snd (tool_branch E self sess' [UserTurn query] content
        (h @ [ListTools sess' (Inr tools'),
              Complete \<lparr>req_model = model self, req_messages = [UserTurn query],
                        req_tools = Some (map render_tool tools')\<rparr> (Inr response)]))
      = (h @ [ListTools sess' (Inr tools'),
              Complete \<lparr>req_model = model self, req_messages = [UserTurn query],
                        req_tools = Some (map render_tool tools')\<rparr> (Inr response)]) @ evs"
      using tool_branch_trace by blast
    with tool a show ?thesis by (simp add: new_events_def)
  qed (use a in \<open>simp_all add: new_events_def\<close>)
  show "let h1 = ?h1; req = ?req in
        take 2 (new_events h (snd (process_query E self query h)))
             = [ListTools sess (Inr tools), Complete req (create E h1 req)]
           \<and> length (map render_tool tools) = length tools
           \<and> (\<forall>i < length tools.
                 td_type (map render_tool tools ! i) = ''function''
                 \<and> fd_name (td_function (map render_tool tools ! i)) = tool_name (tools ! i)
                 \<and> fd_description (td_function (map render_tool tools ! i)) = tool_description (tools ! i)
                 \<and> fd_input_schema (td_function (map render_tool tools ! i)) = tool_inputSchema (tools ! i))"
    using tr by (simp add: Let_def render_tool_def)
qed


theorem process_query_first_request_witness:
  "session demo_client = Some demo_session
   \<and> list_tools demo_env [] demo_session = Inr [demo_tool]
   \<and> take 2 (new_events [] (snd (process_query demo_env demo_client ''what tables exist?'' [])))
       = [ListTools demo_session (Inr [demo_tool]),
          Complete (demo_first_request ''what tables exist?'') (Inr demo_tool_reply)]
   \<and> (0::nat) < length [demo_tool]
   \<and> td_type (map render_tool [demo_tool] ! 0) = ''function''
   \<and> fd_name (td_function (map render_tool [demo_tool] ! 0)) = ''list_tables''
   \<and> fd_description (td_function (map render_tool [demo_tool] ! 0)) = Some ''List the tables''
   \<and> fd_input_schema (td_function (map render_tool [demo_tool] ! 0)) = JObj [(''type'', JStr ''object'')]"
  using process_query_first_request [where E = demo_env and self = demo_client and query = "''what tables exist?''"
      and tools = "[demo_tool]" and h = "[]" and sess = demo_session]
  by (simp add: demo_client_def demo_env_def demo_first_request_def demo_tool_def Let_def)

lemma tool_branch_requests:
  "Complete req r \<in> set (new_events h (snd (tool_branch E self sess msgs content h)))
   \<Longrightarrow> \<exists>tool_text c more_calls.
         req_messages req = msgs @ [DumpedTurn (message content), ToolTurn tool_text (tc_id c)]
         \<and> msg_tool_calls (message content) = Some (c # more_calls)
         \<and> req_tools req = None"
  unfolding tool_branch_def Let_def
  by (simp add: new_events_def print_calling_tool_def
      split: option.split_asm sum.split_asm list.split_asm content_block.split_asm)

text \<open>
  C4. Every history that \<open>process_query\<close> sends to the model satisfies the invariant of
  a conversation. The call with a tool catalog receives the user turn alone; the call
  without one receives exactly the user turn, the dumped message of the first reply of
  the model, and a tool turn whose \<open>tool_call_id\<close> is the \<open>id\<close> of the first request
  of that message.
\<close>

theorem process_query_history_shape:
  "Complete req r \<in> set (new_events h (snd (process_query E self query h)))
   \<longrightarrow> conversation_ok (req_messages req)
       \<and> ((\<exists>ds. req_tools req = Some ds) \<and> req_messages req = [UserTurn query]
          \<or> req_tools req = None
            \<and> (\<exists>first_request response content cs tool_text c more_calls.
                  Complete first_request (Inr response)
                    \<in> set (new_events h (snd (process_query E self query h)))
                  \<and> req_messages first_request = [UserTurn query]
                  \<and> choices response = content # cs
                  \<and> msg_tool_calls (message content) = Some (c # more_calls)
                  \<and> req_messages req
                      = [UserTurn query, DumpedTurn (message content),
                         ToolTurn tool_text (tc_id c)]))"
proof (intro impI)
  assume ev: "Complete req r \<in> set (new_events h (snd (process_query E self query h)))"
  show "conversation_ok (req_messages req)
       \<and> ((\<exists>ds. req_tools req = Some ds) \<and> req_messages req = [UserTurn query]
          \<or> req_tools req = None
            \<and> (\<exists>first_request response content cs tool_text c more_calls.
                  Complete first_request (Inr response)
                    \<in> set (new_events h (snd (process_query E self query h)))
                  \<and> req_messages first_request = [UserTurn query]
                  \<and> choices response = content # cs
                  \<and> msg_tool_calls (message content) = Some (c # more_calls)
                  \<and> req_messages req
                      = [UserTurn query, DumpedTurn (message content),
                         ToolTurn tool_text (tc_id c)]))"
  proof (cases rule: process_query_cases [of self E query h])
    case (tool sess tools response content cs)
    let ?first = "\<lparr>req_model = model self, req_messages = [UserTurn query],
                   req_tools = Some (map render_tool tools)\<rparr>"
    let ?h2 = "h @ [ListTools sess (Inr tools), Complete ?first (Inr response)]"
    obtain evs where evs: "snd (tool_branch E self sess [UserTurn query] content ?h2) = ?h2 @ evs"
      using tool_branch_trace by blast
    have new: "new_events h (snd (process_query E self query h))
                 = [ListTools sess (Inr tools), Complete ?first (Inr response)] @ evs"
      using tool(6) evs by (simp add: new_events_def)
    have tail: "new_events ?h2 (snd (tool_branch E self sess [UserTurn query] content ?h2)) = evs"
      using evs by (simp add: new_events_def)
    from ev new have "req = ?first \<or> Complete req r \<in> set evs" by auto
    then show ?thesis
    proof
      assume "req = ?first"
      then show ?thesis by (simp add: conversation_ok_def)
    next
      assume "Complete req r \<in> set evs"
      with tail tool_branch_requests [of req r ?h2 E self sess "[UserTurn query]" content]
      obtain tool_text c more_calls where
        m: "req_messages req = [UserTurn query, DumpedTurn (message content), ToolTurn tool_text (tc_id c)]"
        and c: "msg_tool_calls (message content) = Some (c # more_calls)"
        and t: "req_tools req = None"
        by auto
      have "conversation_ok (req_messages req)"
        using m c by (simp add: conversation_ok_def)
      moreover have "Complete ?first (Inr response)
                       \<in> set (new_events h (snd (process_query E self query h)))"
        using new by simp
      moreover have "req_messages ?first = [UserTurn query]" by simp
      ultimately show ?thesis using m c t tool(4) by blast
    qed
  qed (use ev in \<open>auto simp add: new_events_def conversation_ok_def\<close>)
qed

theorem process_query_history_shape_witness:
  "Complete (demo_second_request ''what tables exist?'') (Inr demo_final_reply)
     \<in> set (new_events [] (snd (process_query demo_env demo_client ''what tables exist?'' [])))
   \<and> conversation_ok (req_messages (demo_second_request ''what tables exist?''))
   \<and> req_tools (demo_second_request ''what tables exist?'') = None
   \<and> req_messages (demo_second_request ''what tables exist?'')
       = [UserTurn ''what tables exist?'', DumpedTurn demo_tool_message,
          ToolTurn ''[orders, users]'' (tc_id demo_call)]"
  using process_query_history_shape [where E = demo_env and self = demo_client and query = "''what tables exist?''"
      and h = "[]" and req = "demo_second_request ''what tables exist?''"
      and r = "Inr demo_final_reply"]
  by (simp add: process_query_def tool_branch_def demo_client_def demo_env_def
      demo_tool_reply_def demo_final_reply_def demo_first_request_def demo_second_request_def
      demo_tool_message_def demo_call_def demo_result_def Let_def new_events_def
      conversation_ok_def)

section \<open>Properties of the life cycle\<close>

text \<open>A successful start and a session that ends with \<open>quit\<close>, step by step.\<close>

lemma demo_init: "MCPClient_init demo_env ''config.json'' = Inr demo_fresh_client"
  by (simp add: MCPClient_init_def load_config_def demo_env_def demo_fresh_client_def
      demo_config_text_def)

lemma demo_connect:
  "connect_to_server demo_env demo_fresh_client [] = (Inr (), demo_client, demo_connected_trace)"
  by (simp add: connect_to_server_def get_server_name_and_config_def first_server_def
      py_get_def py_getitem_def py_items_def demo_env_def demo_fresh_client_def demo_client_def
      demo_config_def demo_server_config_def demo_params_def demo_session_def
      demo_connected_trace_def demo_tool_def Let_def)

lemma demo_chat:
  "chat_loop demo_env demo_client [Line ''quit''] demo_connected_trace
     = Some (Inr (), demo_started_trace @ [Input query_prompt (Inr ''quit'')])"
  by (simp add: chat_loop_def demo_started_trace_def py_strip_def py_lower_def py_isspace_def
      space2_def space3_def)

lemma demo_cleanup:
  "cleanup demo_env demo_client h
     = (Inr (), demo_client\<lparr>exit_stack := []\<rparr>,
        h @ [Exit (SessionCM demo_session) None (Returned False),
             Exit (StdioClient demo_params) None (Returned False)])"
  by (simp add: cleanup_def aclose_def demo_client_def demo_env_def Let_def)

lemma demo_main: "main demo_env [Line ''quit''] = Some (Inr (), demo_quit_trace)"
  by (simp add: main_def main_try_def main_body_def demo_init demo_connect demo_chat
      demo_cleanup demo_quit_trace_def)

text \<open>
  C10. The server is the first entry of the \<open>mcpServers\<close> dictionary of the
  configuration: its name and its configuration are returned, whatever entries follow.
  When the dictionary is absent or empty, \<open>get_server_name_and_config\<close> raises a
  \<open>ValueError\<close>, and \<open>connect_to_server\<close> raises it before it has printed or entered
  anything: the client and the trace are unchanged.
\<close>

theorem first_server_only:
  "(config self = JObj cfg
     \<and> map_of cfg ''mcpServers'' = Some (JObj ((server_name, server_config) # others))
    \<longrightarrow> get_server_name_and_config self = Inr (server_name, server_config))
   \<and> (config self = JObj cfg
       \<and> (map_of cfg ''mcpServers'' = None \<or> map_of cfg ''mcpServers'' = Some (JObj []))
      \<longrightarrow> get_server_name_and_config self
            = Inl (Exc ValueError (msg_get_failed @ msg_no_servers))
          \<and> connect_to_server E self h
            = (Inl (Exc ValueError (msg_get_failed @ msg_no_servers)), self, h))"
  by (auto simp add: get_server_name_and_config_def first_server_def py_get_def py_getitem_def
      py_items_def connect_to_server_def)

theorem first_server_only_witness:
  "config demo_client = JObj [(''mcpServers'', JObj [(''mcp-clickhouse'', demo_server_config), (''second'', JObj [])])]
   \<and> get_server_name_and_config demo_client = Inr (''mcp-clickhouse'', demo_server_config)
   \<and> config no_servers_client = JObj [(''mcpServers'', JObj [])]
   \<and> get_server_name_and_config no_servers_client
       = Inl (Exc ValueError (msg_get_failed @ msg_no_servers))
   \<and> connect_to_server demo_env no_servers_client []
       = (Inl (Exc ValueError (msg_get_failed @ msg_no_servers)), no_servers_client, [])"
  using first_server_only [where self = demo_client
      and cfg = "[(''mcpServers'', JObj [(''mcp-clickhouse'', demo_server_config), (''second'', JObj [])])]"
      and server_name = "''mcp-clickhouse''" and server_config = demo_server_config
      and others = "[(''second'', JObj [])]"]
    first_server_only [where self = no_servers_client and cfg = "[(''mcpServers'', JObj [])]"
      and E = demo_env and h = "[]"]
  by (simp add: demo_client_def no_servers_client_def demo_fresh_client_def demo_config_def)

text \<open>
  C8. After \<open>cleanup\<close>, whatever the client and the history were and whatever the first
  \<open>cleanup\<close> raised, a second \<open>cleanup\<close> returns without raising and changes neither
  the client nor the trace: no \<open>__aexit__\<close> is called again.
\<close>

theorem cleanup_idempotent:
  "(case cleanup E self h of
      (r, self1, h1) \<Rightarrow> cleanup E self1 h1 = (Inr (), self1, h1))"
  by (simp add: cleanup_def aclose_def split: prod.split)

lemma run_exits_trace:
  "run_exits E cbs exc p h = (exc', p', h')
   \<Longrightarrow> released h' = released h @ cbs \<and> acquired h' = acquired h"
proof (induction cbs arbitrary: exc p h)
  case Nil
  then show ?case by simp
next
  case (Cons cb cbs)
  then show ?case
    by (auto simp add: Let_def released_def acquired_def split: exit_outcome.splits if_splits)
qed

lemma cleanup_trace:
  "cleanup E self h = (r, self', h')
   \<Longrightarrow> released h' = released h @ exit_stack self \<and> acquired h' = acquired h
       \<and> exit_stack self' = []"
  using run_exits_trace [of E "exit_stack self" None False h]
  by (auto simp add: cleanup_def aclose_def split: prod.splits option.splits if_splits)

lemma init_stack: "MCPClient_init E path = Inr client \<Longrightarrow> exit_stack client = []"
  by (auto simp add: MCPClient_init_def split: sum.splits option.splits if_splits)

lemma connect_trace:
  "connect_to_server E self h = (r, self', h') \<Longrightarrow> exit_stack self = []
   \<Longrightarrow> released h' = released h
       \<and> acquired h' = acquired h @ rev (exit_stack self')
       \<and> (exit_stack self' = [] \<or> (\<exists>p. exit_stack self' = [StdioClient p])
            \<or> (\<exists>p s. exit_stack self' = [SessionCM s, StdioClient p]))
       \<and> (r = Inr () \<longrightarrow> (\<exists>p s. exit_stack self' = [SessionCM s, StdioClient p]))"
  unfolding connect_to_server_def Let_def
  by (auto simp add: released_def acquired_def split: sum.splits option.splits prod.splits)

lemma tool_branch_no_resources:
  "released (snd (tool_branch E self sess msgs content h)) = released h
   \<and> acquired (snd (tool_branch E self sess msgs content h)) = acquired h"
  unfolding tool_branch_def Let_def
  by (simp add: released_def acquired_def print_calling_tool_def
      split: option.split sum.split list.split content_block.split)

lemma process_query_no_resources:
  "released (snd (process_query E self query h)) = released h
   \<and> acquired (snd (process_query E self query h)) = acquired h"
proof (cases rule: process_query_cases [of self E query h])
  case (tool sess tools response content cs)
  then show ?thesis
    using tool_branch_no_resources
      [of E self sess "[UserTurn query]" content
          "h @ [ListTools sess (Inr tools),
                Complete \<lparr>req_model = model self, req_messages = [UserTurn query],
                          req_tools = Some (map render_tool tools)\<rparr> (Inr response)]"]
    by (simp add: released_def acquired_def)
qed (simp_all add: released_def acquired_def)

lemma chat_iter_no_resources:
  "chat_iter E self stdin h = Some (r, h')
   \<Longrightarrow> released h' = released h \<and> acquired h' = acquired h"
proof (induction stdin arbitrary: h)
  case Nil
  then show ?case by simp
next
  case (Cons item rest)
  show ?case
  proof (cases item)
    case CtrlC
    with Cons.prems show ?thesis by (auto simp add: Let_def released_def acquired_def)
  next
    case (Line line)
    let ?h1 = "h @ [Input query_prompt (Inr line)]"
    have h1: "released ?h1 = released h \<and> acquired ?h1 = acquired h"
      by (simp add: released_def acquired_def)
    show ?thesis
    proof (cases "py_lower (py_strip line) = ''quit''")
      case True
      with Cons.prems Line h1 show ?thesis by (simp add: Let_def)
    next
      case False
      obtain out h2 where pq: "process_query E self (py_strip line) ?h1 = (out, h2)"
        by (cases "process_query E self (py_strip line) ?h1")
      have h2: "released h2 = released h \<and> acquired h2 = acquired h"
        using process_query_no_resources [of E self "py_strip line" ?h1] pq h1 by simp
      have step: "\<And>e. released (h2 @ [print_error e]) = released h
                     \<and> acquired (h2 @ [print_error e]) = acquired h"
        using h2 by (simp add: released_def acquired_def print_error_def)
      have step': "\<And>t. released (h2 @ [Print t]) = released h
                     \<and> acquired (h2 @ [Print t]) = acquired h"
        using h2 by (simp add: released_def acquired_def)
      show ?thesis
      proof (cases out)
        case (Inl e)
        show ?thesis
        proof (cases "is_Exception e")
          case True
          with Cons.prems Line False pq Inl
          have "chat_iter E self rest (h2 @ [print_error e]) = Some (r, h')"
            by (simp add: Let_def)
          from Cons.IH [OF this] step show ?thesis by simp
        next
          case False
          with Cons.prems Line \<open>py_lower (py_strip line) \<noteq> ''quit''\<close> pq Inl h2
          show ?thesis by (simp add: Let_def)
        qed
      next
        case (Inr answer)
        show ?thesis
        proof (cases answer)
          case None
          with Cons.prems Line False pq Inr
          have "chat_iter E self rest (h2 @ [print_error concat_none]) = Some (r, h')"
            by (simp add: Let_def)
          from Cons.IH [OF this] step show ?thesis by simp
        next
          case (Some response)
          with Cons.prems Line False pq Inr
          have "chat_iter E self rest (h2 @ [Print [Text (CHR 0x0A # response)]]) = Some (r, h')"
            by (simp add: Let_def)
          from Cons.IH [OF this] step' show ?thesis by simp
        qed
      qed
    qed
  qed
qed

lemma chat_loop_no_resources:
  "chat_loop E self stdin h = Some (r, h')
   \<Longrightarrow> released h' = released h \<and> acquired h' = acquired h"
  using chat_iter_no_resources [of E self stdin _ r h']
  by (simp add: chat_loop_def released_def acquired_def)

lemma main_body_trace:
  assumes "main_body E client stdin h = Some (r, client1, h1)" and "exit_stack client = []"
  shows "released h1 = released h
       \<and> acquired h1 = acquired h @ rev (exit_stack client1)
       \<and> (exit_stack client1 = [] \<or> (\<exists>p. exit_stack client1 = [StdioClient p])
            \<or> (\<exists>p s. exit_stack client1 = [SessionCM s, StdioClient p]))
       \<and> (r = Inr () \<longrightarrow> (\<exists>p s. exit_stack client1 = [SessionCM s, StdioClient p]))"
proof -
  obtain rc c hc where conn: "connect_to_server E client h = (rc, c, hc)"
    by (cases "connect_to_server E client h")
  note ct = connect_trace [OF conn assms(2)]
  show ?thesis
  proof (cases rc)
    case (Inl e)
    with assms(1) conn have "r = Inl e" "client1 = c" "h1 = hc"
      by (simp_all add: main_body_def)
    with ct show ?thesis by simp
  next
    case (Inr u)
    with assms(1) conn obtain h2 where loop: "chat_loop E c stdin hc = Some (r, h2)"
      and eq: "client1 = c" "h1 = h2"
      by (auto simp add: main_body_def split: option.splits)
    from chat_loop_no_resources [OF loop] ct Inr eq show ?thesis by simp
  qed
qed

text \<open>
  C6. On every path on which \<open>main\<close> returns (normally, with an exception or with an
  interrupt), the context managers whose \<open>__aexit__\<close> has been called are exactly
  those that were entered with success, each once, in the reverse order of their
  acquisition. The transport is acquired first and the session second, so the session
  is closed first and the transport stopped after it; when a later step of the start
  fails, what was acquired until then is released; when \<open>MCPClient()\<close> itself raises,
  nothing was acquired and nothing is released.
\<close>

theorem main_releases_in_reverse_order:
  "main E stdin = Some (r, tr)
   \<longrightarrow> released tr = rev (acquired tr)
       \<and> (acquired tr = [] \<or> (\<exists>p. acquired tr = [StdioClient p])
            \<or> (\<exists>p s. acquired tr = [StdioClient p, SessionCM s]))
       \<and> (r = Inr () \<longrightarrow> (\<exists>p s. released tr = [SessionCM s, StdioClient p]))"
proof (intro impI)
  assume run: "main E stdin = Some (r, tr)"
  show "released tr = rev (acquired tr)
       \<and> (acquired tr = [] \<or> (\<exists>p. acquired tr = [StdioClient p])
            \<or> (\<exists>p s. acquired tr = [StdioClient p, SessionCM s]))
       \<and> (r = Inr () \<longrightarrow> (\<exists>p s. released tr = [SessionCM s, StdioClient p]))"
  proof (cases "MCPClient_init E ''config.json''")
    case (Inl e)
    with run show ?thesis by (auto simp add: main_def released_def acquired_def)
  next
    case (Inr client)
    with run obtain client2 where mt: "main_try E client stdin [] = Some (r, client2, tr)"
      by (auto simp add: main_def split: option.splits)
    then obtain rb client1 h1 where body: "main_body E client stdin [] = Some (rb, client1, h1)"
      by (auto simp add: main_try_def split: option.splits)
    obtain rc c3 h3 where cl: "cleanup E client1 h1 = (rc, c3, h3)"
      by (cases "cleanup E client1 h1")
    from mt body cl have tr: "tr = h3" and res: "r = Inr () \<longrightarrow> rb = Inr ()"
      by (auto simp add: main_try_def split: sum.splits)
    note b = main_body_trace [OF body init_stack [OF Inr]]
    note c = cleanup_trace [OF cl]
    have e: "released [] = []" "acquired [] = []" by (simp_all add: released_def acquired_def)
    from b c e tr res show ?thesis by auto
  qed
qed

theorem main_releases_in_reverse_order_witness:
  "main demo_env [Line ''quit''] = Some (Inr (), demo_quit_trace)
   \<and> released demo_quit_trace = [SessionCM demo_session, StdioClient demo_params]
   \<and> acquired demo_quit_trace = [StdioClient demo_params, SessionCM demo_session]"
  using main_releases_in_reverse_order [where E = demo_env and stdin = "[Line ''quit'']" and r = "Inr ()"
      and tr = demo_quit_trace] demo_main
  by (simp add: demo_quit_trace_def demo_started_trace_def demo_connected_trace_def
      released_def acquired_def demo_session_def)

text \<open>
  C7, as the code has it. \<open>main\<close> is a plain \<open>try\<close>/\<open>finally\<close>: when the query loop has
  raised and \<open>cleanup\<close> raises too, the exception of \<open>cleanup\<close> is the one that leaves
  \<open>main\<close>; the exception of the query loop leaves \<open>main\<close> exactly when \<open>cleanup\<close>
  returns normally.
\<close>

theorem main_teardown_error_wins:
  "MCPClient_init E ''config.json'' = Inr client
   \<and> connect_to_server E client [] = (Inr (), connected, hc)
   \<and> chat_loop E connected stdin hc = Some (Inl primary, hq)
   \<and> cleanup E connected hq = (outcome, closed, hf)
   \<longrightarrow> main E stdin
         = Some (case outcome of Inl secondary \<Rightarrow> Inl secondary | Inr u \<Rightarrow> Inl primary, hf)"
  by (auto simp add: main_def main_try_def main_body_def split: sum.splits)

lemma failing_init: "MCPClient_init failing_exit_env ''config.json'' = Inr demo_fresh_client"
  by (simp add: MCPClient_init_def load_config_def failing_exit_env_def demo_env_def
      demo_fresh_client_def demo_config_text_def)

lemma failing_connect:
  "connect_to_server failing_exit_env demo_fresh_client []
     = (Inr (), demo_client, demo_connected_trace)"
  by (simp add: connect_to_server_def get_server_name_and_config_def first_server_def
      py_get_def py_getitem_def py_items_def failing_exit_env_def demo_env_def
      demo_fresh_client_def demo_client_def
      demo_config_def demo_server_config_def demo_params_def demo_session_def
      demo_connected_trace_def demo_tool_def Let_def)

lemma failing_chat:
  "chat_loop E demo_client [CtrlC] demo_connected_trace
     = Some (Inl (Exc KeyboardInterrupt []),
             demo_started_trace @ [Input query_prompt (Inl (Exc KeyboardInterrupt []))])"
  by (simp add: chat_loop_def demo_started_trace_def Let_def)

lemma failing_cleanup:
  "cleanup failing_exit_env demo_client
     (demo_started_trace @ [Input query_prompt (Inl (Exc KeyboardInterrupt []))])
     = (Inl exit_error, demo_client\<lparr>exit_stack := []\<rparr>, demo_interrupted_trace)"
  by (simp add: cleanup_def aclose_def demo_client_def failing_exit_env_def demo_env_def
      demo_interrupted_trace_def Let_def)

theorem main_teardown_error_wins_witness:
  "MCPClient_init failing_exit_env ''config.json'' = Inr demo_fresh_client
   \<and> connect_to_server failing_exit_env demo_fresh_client []
       = (Inr (), demo_client, demo_connected_trace)
   \<and> chat_loop failing_exit_env demo_client [CtrlC] demo_connected_trace
       = Some (Inl (Exc KeyboardInterrupt []),
               demo_started_trace @ [Input query_prompt (Inl (Exc KeyboardInterrupt []))])
   \<and> cleanup failing_exit_env demo_client
        (demo_started_trace @ [Input query_prompt (Inl (Exc KeyboardInterrupt []))])
       = (Inl exit_error, demo_client\<lparr>exit_stack := []\<rparr>, demo_interrupted_trace)
   \<and> main failing_exit_env [CtrlC] = Some (Inl exit_error, demo_interrupted_trace)"
  using main_teardown_error_wins [where E = failing_exit_env and client = demo_fresh_client and connected = demo_client
      and hc = demo_connected_trace and stdin = "[CtrlC]"
      and primary = "Exc KeyboardInterrupt []"
      and hq = "demo_started_trace @ [Input query_prompt (Inl (Exc KeyboardInterrupt []))]"
      and outcome = "Inl exit_error" and closed = "demo_client\<lparr>exit_stack := []\<rparr>"
      and hf = demo_interrupted_trace]
    failing_init failing_connect failing_chat [of failing_exit_env] failing_cleanup
  by simp

text \<open>
  C7, as the claim states it, fails: the query loop is interrupted, closing the session
  fails, and \<open>main\<close> raises the error of the teardown, not the interrupt.
\<close>

theorem main_teardown_error_masks_primary:
  "map_option fst (chat_loop failing_exit_env demo_client [CtrlC] demo_connected_trace)
     = Some (Inl (Exc KeyboardInterrupt []))
   \<and> map_option fst (main failing_exit_env [CtrlC]) = Some (Inl exit_error)
   \<and> exit_error \<noteq> Exc KeyboardInterrupt []"
  by (simp add: main_def main_try_def main_body_def failing_init failing_connect failing_chat
      failing_cleanup exit_error_def)

end
